theory Spec2Isabelle
  imports Main
begin

section \<open>The ROS 2 continuous-integration action (action-ros2-ci.ts)\<close>

text \<open>
  The action is one asynchronous function, \<open>run\<close>, that awaits a fixed sequence of
  operations: bash invocations through \<open>execBashCommand\<close>, and the file-system helpers
  \<open>io.rmRF\<close>, \<open>io.mkdirP\<close> and \<open>core.addPath\<close>. Each \<open>await\<close> either
  returns or throws; a throw leaves the \<open>try\<close> block and is reported by
  \<open>core.setFailed\<close>. No operation's return value is used by a later one, so the
  model is the list of awaited operations, performed in order until one throws, and the
  observable behaviour of a run is the log of operations it performed. What \<open>run\<close>
  reads before and between the operations may throw as well; each such reading is a
  branch of \<open>run_try\<close>.

  A string is the list of the bytes of its UTF-8 encoding, so that ASCII text is written
  as a literal and the other characters take two or three bytes. The one-character
  strings that cannot be written inside a string literal are named below.
\<close>

subsection \<open>Strings\<close>

definition dq :: string where
  "dq = [CHR 0x22]"

definition sq :: string where
  "sq = [CHR 0x27]"

definition nl :: string where
  "nl = [CHR 0x0A]"

text \<open>
  Template interpolation \<^verbatim>\<open>${x}\<close> of a value that may be \<^verbatim>\<open>undefined\<close>:
  JavaScript converts \<^verbatim>\<open>undefined\<close> to the nine characters of its name.
\<close>

fun interpolate :: "string option \<Rightarrow> string" where
  "interpolate None = ''undefined''"
| "interpolate (Some s) = s"

text \<open>
  The characters that the regular expression \<^verbatim>\<open>\s\<close> matches and that
  \<^verbatim>\<open>String.prototype.trim\<close> removes (white space and line terminators), each in
  its UTF-8 encoding: tab, line feed, vertical tab, form feed, carriage return, space,
  U+00A0, U+1680, U+2000 to U+200A, U+2028, U+2029, U+202F, U+205F, U+3000 and U+FEFF.
\<close>

definition whitespace :: "string list" where
  "whitespace =
     [[CHR 0x09], [CHR 0x0A], [CHR 0x0B], [CHR 0x0C], [CHR 0x0D], [CHR 0x20],
      [CHR 0xC2, CHR 0xA0],
      [CHR 0xE1, CHR 0x9A, CHR 0x80],
      [CHR 0xE2, CHR 0x80, CHR 0x80], [CHR 0xE2, CHR 0x80, CHR 0x81],
      [CHR 0xE2, CHR 0x80, CHR 0x82], [CHR 0xE2, CHR 0x80, CHR 0x83],
      [CHR 0xE2, CHR 0x80, CHR 0x84], [CHR 0xE2, CHR 0x80, CHR 0x85],
      [CHR 0xE2, CHR 0x80, CHR 0x86], [CHR 0xE2, CHR 0x80, CHR 0x87],
      [CHR 0xE2, CHR 0x80, CHR 0x88], [CHR 0xE2, CHR 0x80, CHR 0x89],
      [CHR 0xE2, CHR 0x80, CHR 0x8A],
      [CHR 0xE2, CHR 0x80, CHR 0xA8], [CHR 0xE2, CHR 0x80, CHR 0xA9],
      [CHR 0xE2, CHR 0x80, CHR 0xAF],
      [CHR 0xE2, CHR 0x81, CHR 0x9F],
      [CHR 0xE3, CHR 0x80, CHR 0x80],
      [CHR 0xEF, CHR 0xBB, CHR 0xBF]]"

text \<open>
  \<open>match_length seqs s\<close> is the length of the first of the separators \<open>seqs\<close> that
  \<open>s\<close> starts with, and 0 when it starts with none.
\<close>

definition match_length :: "string list \<Rightarrow> string \<Rightarrow> nat" where
  "match_length seqs s =
     (case List.find (\<lambda>q. take (length q) s = q) seqs of
        None \<Rightarrow> 0
      | Some q \<Rightarrow> length q)"

text \<open>
  \<^verbatim>\<open>s.split(separator)\<close> for a separator that matches one character: the string is
  cut at every separator, so two adjacent separators give an empty piece, and the empty
  string gives the one-element list of the empty string. \<open>piece\<close> is the piece read
  so far. \<open>split_ws\<close> is \<^verbatim>\<open>s.split(RegExp("\\s"))\<close>.
\<close>

fun split_seqs :: "string list \<Rightarrow> string \<Rightarrow> string \<Rightarrow> string list" where
  "split_seqs seqs piece [] = [piece]"
| "split_seqs seqs piece (c # cs) =
     (case match_length seqs (c # cs) of
        0 \<Rightarrow> split_seqs seqs (piece @ [c]) cs
      | Suc n \<Rightarrow> piece # split_seqs seqs [] (drop n cs))"

definition split_ws :: "string \<Rightarrow> string list" where
  "split_ws s = split_seqs whitespace [] s"

text \<open>
  \<^verbatim>\<open>s.trim()\<close>: the white space at the start is removed, then the white space at the
  end, read from the reversed string.
\<close>

fun trimStart :: "string list \<Rightarrow> string \<Rightarrow> string" where
  "trimStart seqs [] = []"
| "trimStart seqs (c # cs) =
     (case match_length seqs (c # cs) of
        0 \<Rightarrow> c # cs
      | Suc n \<Rightarrow> trimStart seqs (drop n cs))"

definition trim :: "string \<Rightarrow> string" where
  "trim s = rev (trimStart (map rev whitespace) (rev (trimStart whitespace s)))"

text \<open>\<^verbatim>\<open>xs.join(sep)\<close>.\<close>

fun join :: "string \<Rightarrow> string list \<Rightarrow> string" where
  "join sep [] = []"
| "join sep [x] = x"
| "join sep (x # y # ys) = x @ sep @ join sep (y # ys)"

subsection \<open>Paths\<close>

text \<open>
  Modelled from the spec: \<open>path.resolve\<close>, which \<open>resolveVcsRepoFileUrl\<close> calls, is
  a function of the \<open>path\<close> module of Node and not part of the source. The spec asks for
  the absolute, normalized form of the path; the definitions below are the algorithm of
  \<open>path.posix.resolve\<close> for one argument. The path is put after the working directory
  unless it starts with a slash; the segments between slashes are read from left to
  right, an empty segment or \<open>.\<close> is dropped and \<open>..\<close> removes the segment before
  it; the result is the remaining segments joined by single slashes, after a slash when
  the path is absolute. Paths of Windows (drive letters, backslashes) are not modelled.
\<close>

definition split_path :: "string \<Rightarrow> string list" where
  "split_path p = split_seqs [''/''] [] p"

definition normalize_step :: "bool \<Rightarrow> string list \<Rightarrow> string \<Rightarrow> string list" where
  "normalize_step allowAboveRoot res seg =
     (if seg = [] \<or> seg = ''.'' then res
      else if seg = ''..'' then
        (if res = [] \<or> last res = ''..''
         then (if allowAboveRoot then res @ [''..''] else res)
         else butlast res)
      else res @ [seg])"

definition normalizeString :: "string \<Rightarrow> bool \<Rightarrow> string" where
  "normalizeString path allowAboveRoot =
     join ''/'' (foldl (normalize_step allowAboveRoot) [] (split_path path))"

definition startsWithSlash :: "string \<Rightarrow> bool" where
  "startsWithSlash p = (case p of [] \<Rightarrow> False | c # _ \<Rightarrow> c = CHR ''/'')"

definition posix_resolve :: "string \<Rightarrow> string \<Rightarrow> string" where
  "posix_resolve cwd p =
     (let first = (if p = [] then [] else p @ ''/'');
          done = startsWithSlash p \<or> cwd = [];
          resolvedPath = (if done then first else cwd @ ''/'' @ first);
          resolvedAbsolute = (if done then startsWithSlash p else startsWithSlash cwd);
          normalized = normalizeString resolvedPath (\<not> resolvedAbsolute)
      in if resolvedAbsolute then ''/'' @ normalized
         else if normalized \<noteq> [] then normalized else ''.'')"

text \<open>
  A list of path segments is clean when none is empty, \<open>.\<close> or \<open>..\<close> and none
  contains a slash: the segments of a normalized absolute path.
\<close>

definition clean :: "string list \<Rightarrow> bool" where
  "clean segs = (\<forall>g \<in> set segs. g \<noteq> [] \<and> g \<noteq> ''.'' \<and> g \<noteq> ''..'' \<and> CHR ''/'' \<notin> set g)"

subsection \<open>Operations, messages and the environment\<close>

text \<open>
  The options of \<open>ToolRunner\<close> that the action sets, and the runner that
  \<open>execBashCommand\<close> builds (tool, arguments, options; the options are optional).
\<close>

datatype exec_options = ExecOptions (cwd: "string option") (ignoreReturnCode: bool)

datatype toolrunner =
  ToolRunner (toolPath: string) (args: "string list") (options: "exec_options option")

text \<open>
  What an operation throws is used through its \<open>message\<close> only. \<open>ProcessFailed t c\<close>
  is the message of the error with which \<open>ToolRunner.exec\<close> rejects when tool \<open>t\<close>
  exits with the non-zero code \<open>c\<close>; \<open>PathTypeError\<close> is that of the
  \<open>TypeError\<close> of \<open>path.join\<close> on \<^verbatim>\<open>undefined\<close>, and \<open>NullTypeError\<close> that
  of the \<open>TypeError\<close> of reading a property of \<^verbatim>\<open>null\<close> (their texts depend on
  the version of Node).
\<close>

datatype message = Text string | ProcessFailed string int | PathTypeError | NullTypeError

datatype action =
    Exec toolrunner
  | RmRF string
  | MkdirP string
  | AddPath string
  | SetFailed message

text \<open>
  The pull request of the payload, as far as \<open>run\<close> reads it: \<open>head.repo.full_name\<close>,
  or nothing when \<open>head.repo\<close> is \<^verbatim>\<open>null\<close> (the fork was deleted).
\<close>

datatype pull_request = PullRequest (head_repo_full_name: "string option")

text \<open>
  The invocation context.
  \<^item> \<open>rawInput name\<close> is the environment variable that carries the input \<open>name\<close>, or
    the empty string when it is not set; \<open>core.getInput\<close> reads it.
  \<^item> \<open>GITHUB_WORKSPACE\<close>, \<open>GITHUB_REPOSITORY\<close> and \<open>GITHUB_HEAD_REF\<close> are the
    environment variables read through \<open>process.env\<close> (absent ones are
    \<^verbatim>\<open>undefined\<close>).
  \<^item> \<open>context_repo\<close> is the outcome of the getter \<open>github.context.repo\<close>: the
    message of the error it throws (when there is neither \<open>GITHUB_REPOSITORY\<close> nor a
    repository in the payload), or the \<open>repo\<close> field of its result (which is
    \<^verbatim>\<open>undefined\<close> when \<open>GITHUB_REPOSITORY\<close> has no slash).
  \<^item> \<open>context_sha\<close> is \<open>github.context.sha\<close>.
  \<^item> \<open>payload_pull_request\<close> is \<open>github.context.payload.pull_request\<close>.
\<close>

record ctx =
  rawInput :: "string \<Rightarrow> string"
  GITHUB_WORKSPACE :: "string option"
  GITHUB_REPOSITORY :: "string option"
  GITHUB_HEAD_REF :: "string option"
  context_repo :: "message + string option"
  context_sha :: "string option"
  payload_pull_request :: "pull_request option"

text \<open>
  The platform the action runs on. The working directory of the process is absolute: a
  slash and the names in \<open>cwd_dirs\<close>. The outcome of an operation is decided outside
  the program, so it is a parameter: it may depend on everything done before (the log).
  \<open>spawn\<close> gives either the reason the process could not be run or its exit code;
  \<open>rmRF\<close> and \<open>mkdirP\<close> give the message of the error they throw, if any.
\<close>

record sys =
  platform :: string
  homedir :: string
  cwd_dirs :: "string list"
  existsSync :: "string \<Rightarrow> bool"
  path_join :: "string list \<Rightarrow> string"
  spawn :: "action list \<Rightarrow> toolrunner \<Rightarrow> string + int"
  rmRF :: "action list \<Rightarrow> string \<Rightarrow> string option"
  mkdirP :: "action list \<Rightarrow> string \<Rightarrow> string option"

definition process_cwd :: "sys \<Rightarrow> string" where
  "process_cwd s = ''/'' @ join ''/'' (cwd_dirs s)"

text \<open>
  Modelled from the spec: \<open>path.resolve(p)\<close> on this platform, which resolves
  \<open>p\<close> from the working directory of the process.
\<close>

definition path_resolve :: "sys \<Rightarrow> string \<Rightarrow> string" where
  "path_resolve s p = posix_resolve (process_cwd s) p"

subsection \<open>resolveVcsRepoFileUrl and execBashCommand\<close>

definition resolveVcsRepoFileUrl :: "sys \<Rightarrow> string \<Rightarrow> string" where
  "resolveVcsRepoFileUrl s vcsRepoFileUrl =
     (if existsSync s vcsRepoFileUrl then ''file://'' @ path_resolve s vcsRepoFileUrl
      else vcsRepoFileUrl)"

text \<open>
  The script and the runner that \<open>execBashCommand\<close> builds from its arguments. The
  log group around the execution, and its title, do not change what is run or returned.
\<close>

definition bashScript :: "string \<Rightarrow> string option \<Rightarrow> string" where
  "bashScript commandLine commandPrefix = interpolate commandPrefix @ commandLine"

definition bashRunner :: "string \<Rightarrow> string option \<Rightarrow> exec_options option \<Rightarrow> toolrunner" where
  "bashRunner commandLine commandPrefix opts =
     ToolRunner ''bash'' [''-c'', bashScript commandLine commandPrefix] opts"

text \<open>
  \<open>ToolRunner.exec\<close>: the promise resolves with the exit code, and rejects when the
  process could not be run, or when the code is not zero unless \<open>ignoreReturnCode\<close>
  is set.
\<close>

definition ignoresReturnCode :: "exec_options option \<Rightarrow> bool" where
  "ignoresReturnCode opts = (case opts of None \<Rightarrow> False | Some o' \<Rightarrow> ignoreReturnCode o')"

definition runner_exec :: "sys \<Rightarrow> action list \<Rightarrow> toolrunner \<Rightarrow> message + int" where
  "runner_exec s log r =
     (case spawn s log r of
        Inl reason \<Rightarrow> Inl (Text reason)
      | Inr code \<Rightarrow>
          if code \<noteq> 0 \<and> \<not> ignoresReturnCode (options r)
          then Inl (ProcessFailed (toolPath r) code)
          else Inr code)"

definition execBashCommand ::
  "sys \<Rightarrow> action list \<Rightarrow> string \<Rightarrow> string option \<Rightarrow> exec_options option \<Rightarrow> message + int" where
  "execBashCommand s log commandLine commandPrefix opts =
     runner_exec s log (bashRunner commandLine commandPrefix opts)"

subsection \<open>Awaiting operations in sequence\<close>

text \<open>
  \<open>await s log a\<close> is what awaiting operation \<open>a\<close> throws after the operations of
  \<open>log\<close>, if it throws. \<open>perform\<close> awaits a list of operations in order, adds each
  to the log as it is started, and stops at the first that throws.
\<close>

fun await :: "sys \<Rightarrow> action list \<Rightarrow> action \<Rightarrow> message option" where
  "await s log (Exec r) = (case runner_exec s log r of Inl e \<Rightarrow> Some e | Inr _ \<Rightarrow> None)"
| "await s log (RmRF p) = map_option Text (rmRF s log p)"
| "await s log (MkdirP p) = map_option Text (mkdirP s log p)"
| "await s log (AddPath p) = None"
| "await s log (SetFailed m) = None"

fun perform :: "sys \<Rightarrow> action list \<Rightarrow> action list \<Rightarrow> message option \<times> action list" where
  "perform s [] log = (None, log)"
| "perform s (a # as) log =
     (case await s log a of
        Some e \<Rightarrow> (Some e, log @ [a])
      | None \<Rightarrow> perform s as (log @ [a]))"

subsection \<open>run\<close>

text \<open>
  \<open>core.getInput(name)\<close> returns the trimmed value of the input.
  \<open>core.getInput(name, {required: true})\<close> throws when the value is empty before it
  is trimmed, so an input of white space only is accepted and read as the empty string.
\<close>

definition getInput :: "ctx \<Rightarrow> string \<Rightarrow> string" where
  "getInput c name = trim (rawInput c name)"

definition getInput_required :: "ctx \<Rightarrow> string \<Rightarrow> message + string" where
  "getInput_required c name =
     (if rawInput c name = '''' then Inl (Text (''Input required and not supplied: '' @ name))
      else Inr (getInput c name))"

text \<open>
  The constant \<open>repo["repo"]\<close>, for the runs in which the getter returns; the others
  stop at the getter, before any use of it (see \<open>run_try\<close>).
\<close>

definition repo :: "ctx \<Rightarrow> string option" where
  "repo c = (case context_repo c of Inl e \<Rightarrow> None | Inr name \<Rightarrow> name)"

definition packageNameList :: "ctx \<Rightarrow> string list" where
  "packageNameList c = split_ws (getInput c ''package-name'')"

definition ros2WorkspaceDir :: "sys \<Rightarrow> string \<Rightarrow> string" where
  "ros2WorkspaceDir s workspace = path_join s [workspace, ''ros2_ws'']"

text \<open>The loop over the listed distributions that builds the prefix.\<close>

fun sourceAll :: "string \<Rightarrow> string list \<Rightarrow> string" where
  "sourceAll commandPrefix [] = commandPrefix"
| "sourceAll commandPrefix (rosDistribution # rest) =
     sourceAll (commandPrefix @ ''source /opt/ros/'' @ rosDistribution @ ''/setup.sh && '') rest"

definition commandPrefix :: "ctx \<Rightarrow> string" where
  "commandPrefix c =
     (if getInput c ''source-ros-binary-installation'' \<noteq> ''''
      then sourceAll '''' (split_ws (getInput c ''source-ros-binary-installation''))
      else '''')"

text \<open>
  Lines 126 to 129: the full name of the repository to import. Reading
  \<open>head.repo.full_name\<close> throws when \<open>head.repo\<close> is \<^verbatim>\<open>null\<close>.
  \<open>repoFullName\<close> is the value for the runs in which it does not throw.
\<close>

definition read_repoFullName :: "ctx \<Rightarrow> message + string option" where
  "read_repoFullName c =
     (case payload_pull_request c of
        None \<Rightarrow> Inr (GITHUB_REPOSITORY c)
      | Some pr \<Rightarrow>
          (case head_repo_full_name pr of
             None \<Rightarrow> Inl NullTypeError
           | Some full_name \<Rightarrow> Inr (Some full_name)))"

definition repoFullName :: "ctx \<Rightarrow> string option" where
  "repoFullName c = (case read_repoFullName c of Inl e \<Rightarrow> None | Inr name \<Rightarrow> name)"

text \<open>\<^verbatim>\<open>headRef || github.context.sha\<close>: an absent or empty head ref is falsy.\<close>

definition commitRef :: "ctx \<Rightarrow> string option" where
  "commitRef c =
     (case GITHUB_HEAD_REF c of
        None \<Rightarrow> context_sha c
      | Some headRef \<Rightarrow> if headRef \<noteq> '''' then Some headRef else context_sha c)"

definition importManifestCmd :: "string \<Rightarrow> string" where
  "importManifestCmd vcsRepoFileUrl = ''curl '' @ sq @ vcsRepoFileUrl @ sq @ '' | vcs import src/''"

definition removeTargetCmd :: "string \<Rightarrow> ctx \<Rightarrow> string" where
  "removeTargetCmd wsdir c =
     ''find '' @ dq @ wsdir @ dq @ '' -type d -and -name '' @ dq @ interpolate (repo c) @ dq
       @ '' | xargs rm -rf''"

definition importTargetCmd :: "ctx \<Rightarrow> string" where
  "importTargetCmd c =
     ''vcs import src/ << EOF'' @ nl
     @ ''repositories:'' @ nl
     @ ''  '' @ interpolate (repo c) @ '':'' @ nl
     @ ''    type: git'' @ nl
     @ ''    url: '' @ dq @ ''https://github.com/'' @ interpolate (repoFullName c) @ ''.git'' @ dq @ nl
     @ ''    version: '' @ dq @ interpolate (commitRef c) @ dq @ nl
     @ ''EOF''"

definition pruneCmd :: "ctx \<Rightarrow> string" where
  "pruneCmd c =
     ''diff --new-line-format='' @ dq @ dq @ '' --unchanged-line-format='' @ dq @ dq
       @ '' <(colcon list -p) <(colcon list --packages-up-to ''
       @ join '' '' (packageNameList c) @ '' -p) | xargs rm -rf''"

definition rosdepInstallCmd :: string where
  "rosdepInstallCmd =
     ''DEBIAN_FRONTEND=noninteractive RTI_NC_LICENSE_ACCEPTED=yes rosdep install -r --from-paths src --ignore-src --rosdistro eloquent -y || true''"

definition mixinAddCmd :: "ctx \<Rightarrow> string" where
  "mixinAddCmd c =
     ''colcon mixin add default '' @ sq @ getInput c ''colcon-mixin-repository'' @ sq"

definition extra_options :: "ctx \<Rightarrow> string list" where
  "extra_options c =
     (if getInput c ''colcon-mixin-name'' \<noteq> ''''
      then [] @ [''--mixin'', getInput c ''colcon-mixin-name'']
      else [])"

definition colconBuildCmd :: "ctx \<Rightarrow> string" where
  "colconBuildCmd c =
     ''colcon build --event-handlers console_cohesion+ --symlink-install --packages-up-to ''
       @ join '' '' (packageNameList c) @ '' '' @ join '' '' (extra_options c)"

definition colconTestCmd :: "ctx \<Rightarrow> string" where
  "colconTestCmd c =
     ''colcon test --event-handlers console_cohesion+ --pytest-args --cov=. --cov-report=xml --return-code-on-test-failure --packages-select ''
       @ join '' '' (packageNameList c) @ '' '' @ join '' '' (extra_options c)"

definition colconLcovResultCmd :: "ctx \<Rightarrow> string" where
  "colconLcovResultCmd c = ''colcon lcov-result --packages-select '' @ join '' '' (packageNameList c)"

text \<open>
  The operations that \<open>run\<close> awaits after its inputs are read, in source order,
  grouped by stage: the reset of the workspace and the import of the manifest; the
  removal of the target repository; its import; the pruning; the installation of the
  system dependencies; the registration of the mixin, when both of its inputs are set;
  the build, the test and the coverage extraction. Every bash invocation is the runner
  that \<open>execBashCommand\<close> builds from the arguments \<open>run\<close> passes it; \<open>exec_in\<close>
  is the source's constant \<open>options\<close>.
\<close>

definition exec_in :: "sys \<Rightarrow> string \<Rightarrow> exec_options option" where
  "exec_in s workspace = Some (ExecOptions (Some (ros2WorkspaceDir s workspace)) False)"

definition import_steps :: "sys \<Rightarrow> ctx \<Rightarrow> string \<Rightarrow> string \<Rightarrow> action list" where
  "import_steps s c workspace vcsRepoFileUrl =
     (if platform s \<noteq> ''win32''
      then [Exec (bashRunner ''rosdep update'' (Some (commandPrefix c)) None)] else [])
     @ [RmRF (path_join s [homedir s, ''.colcon'']),
        RmRF (ros2WorkspaceDir s workspace),
        MkdirP (ros2WorkspaceDir s workspace @ ''/src''),
        Exec (bashRunner (importManifestCmd vcsRepoFileUrl) (Some (commandPrefix c))
                (exec_in s workspace))]"

definition remove_steps :: "sys \<Rightarrow> ctx \<Rightarrow> string \<Rightarrow> action list" where
  "remove_steps s c workspace =
     [Exec (bashRunner (removeTargetCmd (ros2WorkspaceDir s workspace) c)
              (Some (commandPrefix c)) None)]"

definition target_steps :: "sys \<Rightarrow> ctx \<Rightarrow> string \<Rightarrow> action list" where
  "target_steps s c workspace =
     [Exec (bashRunner (importTargetCmd c) (Some (commandPrefix c)) (exec_in s workspace))]"

definition prune_steps :: "sys \<Rightarrow> ctx \<Rightarrow> string \<Rightarrow> action list" where
  "prune_steps s c workspace =
     [Exec (bashRunner (pruneCmd c) (Some (commandPrefix c)) (exec_in s workspace))]"

definition install_steps :: "sys \<Rightarrow> ctx \<Rightarrow> string \<Rightarrow> action list" where
  "install_steps s c workspace =
     [Exec (bashRunner rosdepInstallCmd (Some (commandPrefix c)) (exec_in s workspace))]"

definition mixin_steps :: "ctx \<Rightarrow> action list" where
  "mixin_steps c =
     (if getInput c ''colcon-mixin-name'' \<noteq> '''' \<and> getInput c ''colcon-mixin-repository'' \<noteq> ''''
      then [Exec (bashRunner (mixinAddCmd c) (Some (commandPrefix c)) None),
            Exec (bashRunner ''colcon mixin update default'' (Some (commandPrefix c)) None)]
      else [])"

definition build_steps :: "sys \<Rightarrow> ctx \<Rightarrow> string \<Rightarrow> action list" where
  "build_steps s c workspace =
     [AddPath (path_join s [ros2WorkspaceDir s workspace, ''install'', ''bin'']),
      Exec (bashRunner (colconBuildCmd c) (Some (commandPrefix c)) (exec_in s workspace)),
      Exec (bashRunner (colconTestCmd c) (Some (commandPrefix c)) (exec_in s workspace)),
      Exec (bashRunner (colconLcovResultCmd c) None
              (Some (ExecOptions (Some (ros2WorkspaceDir s workspace)) True)))]"

text \<open>
  The operations up to the removal of the target repository, and those from its import
  on: between them \<open>run\<close> reads the full name of the repository, which may throw.
\<close>

definition first_steps :: "sys \<Rightarrow> ctx \<Rightarrow> string \<Rightarrow> string \<Rightarrow> action list" where
  "first_steps s c workspace vcsRepoFileUrl =
     import_steps s c workspace vcsRepoFileUrl @ remove_steps s c workspace"

definition later_steps :: "sys \<Rightarrow> ctx \<Rightarrow> string \<Rightarrow> action list" where
  "later_steps s c workspace =
     target_steps s c workspace @ prune_steps s c workspace @ install_steps s c workspace
     @ mixin_steps c @ build_steps s c workspace"

definition pipeline :: "sys \<Rightarrow> ctx \<Rightarrow> string \<Rightarrow> string \<Rightarrow> action list" where
  "pipeline s c workspace vcsRepoFileUrl =
     first_steps s c workspace vcsRepoFileUrl @ later_steps s c workspace"

text \<open>
  The body of the \<open>try\<close> block. The getter \<open>github.context.repo\<close> and the inputs
  are read first, and what they throw ends the run before anything is done; the platform
  check returns early after \<open>core.setFailed\<close>; then the operations are performed,
  with the reading of the full name of the repository in its place. The result is what
  the body throws, if it throws, and the log.
\<close>

definition unsupportedPlatform :: string where
  "unsupportedPlatform = ''sourcing binary installation is only available on Linux''"

definition run_try :: "sys \<Rightarrow> ctx \<Rightarrow> message option \<times> action list" where
  "run_try s c =
     (case context_repo c of
        Inl e \<Rightarrow> (Some e, [])
      | Inr repo_name \<Rightarrow>
     (case getInput_required c ''package-name'' of
        Inl e \<Rightarrow> (Some e, [])
      | Inr packageName \<Rightarrow>
     (case GITHUB_WORKSPACE c of
        None \<Rightarrow> (Some PathTypeError, [])
      | Some workspace \<Rightarrow>
     (case getInput_required c ''vcs-repo-file-url'' of
        Inl e \<Rightarrow> (Some e, [])
      | Inr url \<Rightarrow>
          if getInput c ''source-ros-binary-installation'' \<noteq> '''' \<and> platform s \<noteq> ''linux''
          then (None, [SetFailed (Text unsupportedPlatform)])
          else
            (case perform s (first_steps s c workspace (resolveVcsRepoFileUrl s url)) [] of
               (Some e, log) \<Rightarrow> (Some e, log)
             | (None, log) \<Rightarrow>
                 (case read_repoFullName c of
                    Inl e \<Rightarrow> (Some e, log)
                  | Inr full_name \<Rightarrow> perform s (later_steps s c workspace) log))))))"

text \<open>
  \<open>run\<close>: the \<open>catch\<close> clause reports the message of what the body threw with
  \<open>core.setFailed\<close>. The result of a run is its log.
\<close>

definition catch_setFailed :: "message option \<times> action list \<Rightarrow> action list" where
  "catch_setFailed res =
     (case res of
        (Some e, log) \<Rightarrow> log @ [SetFailed e]
      | (None, log) \<Rightarrow> log)"

definition run :: "sys \<Rightarrow> ctx \<Rightarrow> action list" where
  "run s c = catch_setFailed (run_try s c)"

subsection \<open>Example invocations\<close>

text \<open>
  Concrete contexts and platforms on which the theorems below are tried. \<open>inputs kv\<close>
  gives the listed inputs and the empty string for every other one.
\<close>

definition inputs :: "(string \<times> string) list \<Rightarrow> string \<Rightarrow> string" where
  "inputs kv name = (case map_of kv name of Some v \<Rightarrow> v | None \<Rightarrow> [])"

definition ctx_foo :: ctx where
  "ctx_foo = \<lparr> rawInput = inputs [(''package-name'', ''foo''),
                                 (''vcs-repo-file-url'', ''https://example.com/ros2.repos'')],
       GITHUB_WORKSPACE = Some ''/ws'',
       GITHUB_REPOSITORY = Some ''owner/foo'',
       GITHUB_HEAD_REF = Some ''pr-123'',
       context_repo = Inr (Some ''foo''),
       context_sha = Some ''0a1b2c'',
       payload_pull_request = None \<rparr>"

text \<open>A Linux runner on which every operation succeeds.\<close>

definition sys_ok :: sys where
  "sys_ok = \<lparr> platform = ''linux'',
       homedir = ''/home/runner'',
       cwd_dirs = [''home'', ''runner'', ''work''],
       existsSync = (\<lambda>p. p = ''config/../ros2.repos''),
       path_join = join ''/'',
       spawn = (\<lambda>log r. Inr 0),
       rmRF = (\<lambda>log p. None),
       mkdirP = (\<lambda>log p. None) \<rparr>"

text \<open>
  Variants of the invocation: with a distribution to source, with and without the
  package name; with three packages separated by a tab and a no-break space; with the
  mixin name alone, and with the mixin repository alone.
\<close>

definition ctx_source :: ctx where
  "ctx_source = ctx_foo \<lparr> rawInput := inputs [(''package-name'', ''foo''),
       (''vcs-repo-file-url'', ''https://example.com/ros2.repos''),
       (''source-ros-binary-installation'', ''eloquent'')] \<rparr>"

definition ctx_source_only :: ctx where
  "ctx_source_only = ctx_foo \<lparr> rawInput := inputs [
       (''vcs-repo-file-url'', ''https://example.com/ros2.repos''),
       (''source-ros-binary-installation'', ''eloquent'')] \<rparr>"

definition ctx_packages :: ctx where
  "ctx_packages = ctx_foo \<lparr> rawInput := inputs [
       (''package-name'', ''foo'' @ [CHR 0x09] @ ''bar'' @ [CHR 0xC2, CHR 0xA0] @ ''baz''),
       (''vcs-repo-file-url'', ''https://example.com/ros2.repos'')] \<rparr>"

definition ctx_mixin_name :: ctx where
  "ctx_mixin_name = ctx_foo \<lparr> rawInput := inputs [(''package-name'', ''foo''),
       (''vcs-repo-file-url'', ''https://example.com/ros2.repos''),
       (''colcon-mixin-name'', ''asan'')] \<rparr>"

definition ctx_mixin_repo :: ctx where
  "ctx_mixin_repo = ctx_foo \<lparr> rawInput := inputs [(''package-name'', ''foo''),
       (''vcs-repo-file-url'', ''https://example.com/ros2.repos''),
       (''colcon-mixin-repository'', ''https://example.com/index.yaml'')] \<rparr>"

text \<open>
  Other runners: one with another working directory, one that is not Linux, and three on
  which one invocation exits with a
  non-zero code: the coverage extraction (the one that ignores its return code), the
  build (the eleventh operation of these runs) and the test (the twelfth).
\<close>

definition sys_elsewhere :: sys where
  "sys_elsewhere = sys_ok \<lparr> cwd_dirs := [''tmp''] \<rparr>"

definition sys_mac :: sys where
  "sys_mac = sys_ok \<lparr> platform := ''darwin'' \<rparr>"

definition sys_lcov_fails :: sys where
  "sys_lcov_fails =
     sys_ok \<lparr> spawn := (\<lambda>log r. if ignoresReturnCode (options r) then Inr 1 else Inr 0) \<rparr>"

definition sys_build_fails :: sys where
  "sys_build_fails = sys_ok \<lparr> spawn := (\<lambda>log r. if length log = 10 then Inr 2 else Inr 0) \<rparr>"

definition sys_test_fails :: sys where
  "sys_test_fails = sys_ok \<lparr> spawn := (\<lambda>log r. if length log = 11 then Inr 1 else Inr 0) \<rparr>"

section \<open>Properties\<close>

lemmas ws_defs = whitespace_def match_length_def split_ws_def

lemmas path_defs = split_path_def normalize_step_def normalizeString_def startsWithSlash_def
  posix_resolve_def path_resolve_def process_cwd_def Let_def

lemmas steps_defs = first_steps_def later_steps_def import_steps_def remove_steps_def
  target_steps_def prune_steps_def install_steps_def mixin_steps_def build_steps_def

lemmas runner_defs = bashRunner_def bashScript_def exec_in_def

lemmas cmd_defs = importManifestCmd_def removeTargetCmd_def importTargetCmd_def pruneCmd_def
  rosdepInstallCmd_def mixinAddCmd_def colconBuildCmd_def colconTestCmd_def colconLcovResultCmd_def

lemmas example_defs = ctx_foo_def ctx_source_def ctx_source_only_def ctx_packages_def
  ctx_mixin_name_def ctx_mixin_repo_def sys_ok_def sys_elsewhere_def sys_mac_def sys_lcov_fails_def
  sys_build_fails_def sys_test_fails_def inputs_def

text \<open>The inputs of the examples have no white space around them.\<close>

lemma trim_examples:
  "trim [] = []"
  "trim ''foo'' = ''foo''"
  "trim ''https://example.com/ros2.repos'' = ''https://example.com/ros2.repos''"
  "trim ''eloquent'' = ''eloquent''"
  "trim ''asan'' = ''asan''"
  "trim ''https://example.com/index.yaml'' = ''https://example.com/index.yaml''"
  "trim [CHR ''f'', CHR ''o'', CHR ''o'', CHR 0x09, CHR ''b'', CHR ''a'', CHR ''r'',
         CHR 0xC2, CHR 0xA0, CHR ''b'', CHR ''a'', CHR ''z'']
     = [CHR ''f'', CHR ''o'', CHR ''o'', CHR 0x09, CHR ''b'', CHR ''a'', CHR ''r'',
         CHR 0xC2, CHR 0xA0, CHR ''b'', CHR ''a'', CHR ''z'']"
  by (simp_all add: ws_defs trim_def)

lemmas model_defs =
  run_def run_try_def catch_setFailed_def getInput_def getInput_required_def pipeline_def
  steps_defs runner_defs cmd_defs runner_exec_def ignoresReturnCode_def
  resolveVcsRepoFileUrl_def commandPrefix_def
  ros2WorkspaceDir_def extra_options_def packageNameList_def repo_def read_repoFullName_def
  repoFullName_def commitRef_def unsupportedPlatform_def dq_def sq_def nl_def ws_defs
  trim_examples

text \<open>The run of the first example, in full.\<close>

lemma run_ok_foo:
  "run sys_ok ctx_foo =
     [Exec (ToolRunner ''bash'' [''-c'', ''rosdep update''] None),
      RmRF ''/home/runner/.colcon'',
      RmRF ''/ws/ros2_ws'',
      MkdirP ''/ws/ros2_ws/src'',
      Exec (ToolRunner ''bash''
        [''-c'', ''curl '' @ sq @ ''https://example.com/ros2.repos'' @ sq @ '' | vcs import src/'']
        (Some (ExecOptions (Some ''/ws/ros2_ws'') False))),
      Exec (ToolRunner ''bash''
        [''-c'', ''find '' @ dq @ ''/ws/ros2_ws'' @ dq @ '' -type d -and -name '' @ dq @ ''foo''
                   @ dq @ '' | xargs rm -rf'']
        None),
      Exec (ToolRunner ''bash''
        [''-c'', ''vcs import src/ << EOF'' @ nl @ ''repositories:'' @ nl @ ''  foo:'' @ nl
                   @ ''    type: git'' @ nl
                   @ ''    url: '' @ dq @ ''https://github.com/owner/foo.git'' @ dq @ nl
                   @ ''    version: '' @ dq @ ''pr-123'' @ dq @ nl @ ''EOF'']
        (Some (ExecOptions (Some ''/ws/ros2_ws'') False))),
      Exec (ToolRunner ''bash''
        [''-c'', ''diff --new-line-format='' @ dq @ dq @ '' --unchanged-line-format='' @ dq @ dq
                   @ '' <(colcon list -p) <(colcon list --packages-up-to foo -p) | xargs rm -rf'']
        (Some (ExecOptions (Some ''/ws/ros2_ws'') False))),
      Exec (ToolRunner ''bash''
        [''-c'', ''DEBIAN_FRONTEND=noninteractive RTI_NC_LICENSE_ACCEPTED=yes rosdep install -r --from-paths src --ignore-src --rosdistro eloquent -y || true'']
        (Some (ExecOptions (Some ''/ws/ros2_ws'') False))),
      AddPath ''/ws/ros2_ws/install/bin'',
      Exec (ToolRunner ''bash''
        [''-c'', ''colcon build --event-handlers console_cohesion+ --symlink-install --packages-up-to foo '']
        (Some (ExecOptions (Some ''/ws/ros2_ws'') False))),
      Exec (ToolRunner ''bash''
        [''-c'', ''colcon test --event-handlers console_cohesion+ --pytest-args --cov=. --cov-report=xml --return-code-on-test-failure --packages-select foo '']
        (Some (ExecOptions (Some ''/ws/ros2_ws'') False))),
      Exec (ToolRunner ''bash''
        [''-c'', ''undefinedcolcon lcov-result --packages-select foo'']
        (Some (ExecOptions (Some ''/ws/ros2_ws'') True)))]"
  by (simp add: model_defs example_defs)

subsection \<open>Sequences of operations\<close>

lemma perform_append:
  "perform s (xs @ ys) log =
     (case perform s xs log of (None, l) \<Rightarrow> perform s ys l | (Some e, l) \<Rightarrow> (Some e, l))"
  by (induction xs arbitrary: log) (auto split: option.splits)

lemma perform_None:
  "perform s as log = (None, log') \<Longrightarrow> log' = log @ as"
proof (induction as arbitrary: log)
  case Nil
  then show ?case by simp
next
  case (Cons a as)
  from Cons.prems have "perform s as (log @ [a]) = (None, log')"
    by (simp split: option.splits)
  from Cons.IH [OF this] show ?case by simp
qed

lemma perform_None_await:
  "perform s (P @ a # Q) log = (None, log') \<Longrightarrow> await s (log @ P) a = None"
proof (induction P arbitrary: log)
  case Nil
  then show ?case by (simp split: option.splits)
next
  case (Cons p P)
  from Cons.prems have "perform s (P @ a # Q) (log @ [p]) = (None, log')"
    by (simp split: option.splits)
  from Cons.IH [OF this] show ?case by simp
qed

text \<open>The log grows by an initial part of the operations to perform.\<close>

lemma perform_log:
  "perform s as log = (r, log') \<Longrightarrow> \<exists>ys zs. as = ys @ zs \<and> log' = log @ ys"
proof (induction as arbitrary: log)
  case Nil
  then show ?case by simp
next
  case (Cons a as)
  show ?case
  proof (cases "await s log a")
    case None
    with Cons.prems have "perform s as (log @ [a]) = (r, log')" by simp
    from Cons.IH [OF this] obtain ys zs where "as = ys @ zs" "log' = (log @ [a]) @ ys" by blast
    then have "a # as = (a # ys) @ zs \<and> log' = log @ (a # ys)" by simp
    then show ?thesis by blast
  next
    case (Some e)
    with Cons.prems have "log' = log @ [a]" by simp
    then have "a # as = [a] @ as \<and> log' = log @ [a]" by simp
    then show ?thesis by blast
  qed
qed

text \<open>
  Where an operation \<open>X\<close> that occurs once among the operations to perform shows up in
  the log of the run: everything before it was performed without a throw; if \<open>X\<close>
  throws, the run ends with the report of that; otherwise the rest is performed.
\<close>

lemma occurrence:
  assumes run: "catch_setFailed (perform s (A @ X # B) []) = pre @ X # post"
    and XA: "X \<notin> set A" and XB: "X \<notin> set B" and XF: "\<And>m. X \<noteq> SetFailed m"
  shows "pre = A \<and> perform s A [] = (None, A)
     \<and> (\<forall>e. await s A X = Some e \<longrightarrow> post = [SetFailed e])
     \<and> (await s A X = None \<longrightarrow>
          (\<exists>r ys. perform s B (A @ [X]) = (r, A @ X # ys)
             \<and> post = ys @ (case r of None \<Rightarrow> [] | Some e \<Rightarrow> [SetFailed e])))"
proof -
  obtain r l where pA: "perform s A [] = (r, l)" by (cases "perform s A []")
  from perform_log [OF pA] obtain ys zs where yz: "A = ys @ zs" "l = ys" by auto
  show ?thesis
  proof (cases r)
    case (Some e)
    with pA have "catch_setFailed (perform s (A @ X # B) []) = l @ [SetFailed e]"
      by (simp add: perform_append catch_setFailed_def)
    with run have "X \<in> set (l @ [SetFailed e])" by (metis in_set_conv_decomp)
    with XA XF yz show ?thesis by auto
  next
    case None
    with pA perform_None [of s A "[]" l] have l: "l = A" by simp
    have pA': "perform s A [] = (None, A)" using pA None l by simp
    show ?thesis
    proof (cases "await s A X")
      case (Some e)
      with pA' have "catch_setFailed (perform s (A @ X # B) []) = A @ X # [SetFailed e]"
        by (simp add: perform_append catch_setFailed_def)
      with run have "pre @ X # post = A @ X # [SetFailed e]" by simp
      moreover have "X \<notin> set [SetFailed e]" using XF by simp
      ultimately have "pre = A \<and> post = [SetFailed e]"
        using XA append_Cons_eq_iff [of X A "[SetFailed e]" pre post] by metis
      with pA' Some show ?thesis by simp
    next
      case aN: None
      obtain r' l' where pB: "perform s B (A @ [X]) = (r', l')"
        by (cases "perform s B (A @ [X])")
      from perform_log [OF pB] obtain ys' zs'
        where yz': "B = ys' @ zs'" "l' = (A @ [X]) @ ys'" by auto
      let ?tail = "(case r' of None \<Rightarrow> [] | Some e \<Rightarrow> [SetFailed e])"
      have "catch_setFailed (perform s (A @ X # B) []) = A @ X # (ys' @ ?tail)"
        using pA' aN pB yz' by (simp add: perform_append catch_setFailed_def split: option.splits)
      with run have eq: "pre @ X # post = A @ X # (ys' @ ?tail)" by simp
      have "X \<notin> set (ys' @ ?tail)" using XB XF yz' by (auto split: option.splits)
      with eq XA have "pre = A \<and> post = ys' @ ?tail"
        using append_Cons_eq_iff [of X A "ys' @ ?tail" pre post] by metis
      with pA' aN pB yz' show ?thesis by (simp split: option.splits)
    qed
  qed
qed

text \<open>
  A run reports a failure before doing anything, or stops at the reading of the full
  name of the repository after the first operations, or performs the pipeline.
\<close>

lemma run_cases:
  "(\<exists>m. run s c = [SetFailed m])
   \<or> (\<exists>w e. GITHUB_WORKSPACE c = Some w \<and> read_repoFullName c = Inl e
        \<and> run s c = first_steps s c w (resolveVcsRepoFileUrl s (getInput c ''vcs-repo-file-url''))
                       @ [SetFailed e])
   \<or> (\<exists>w. GITHUB_WORKSPACE c = Some w
        \<and> run s c = catch_setFailed (perform s
              (pipeline s c w (resolveVcsRepoFileUrl s (getInput c ''vcs-repo-file-url''))) []))"
proof (cases "\<exists>m. run s c = [SetFailed m]")
  case True
  then show ?thesis by blast
next
  case False
  let ?u = "resolveVcsRepoFileUrl s (getInput c ''vcs-repo-file-url'')"
  from False obtain w where w: "GITHUB_WORKSPACE c = Some w"
    and r: "run_try s c =
      (case perform s (first_steps s c w ?u) [] of
         (Some e, log) \<Rightarrow> (Some e, log)
       | (None, log) \<Rightarrow>
           (case read_repoFullName c of
              Inl e \<Rightarrow> (Some e, log)
            | Inr full_name \<Rightarrow> perform s (later_steps s c w) log))"
    by (auto simp: run_def run_try_def catch_setFailed_def getInput_required_def
        split: sum.splits option.splits if_splits)
  obtain res log where p: "perform s (first_steps s c w ?u) [] = (res, log)"
    by (cases "perform s (first_steps s c w ?u) []")
  show ?thesis
  proof (cases res)
    case (Some e)
    with p r have "run s c = catch_setFailed (perform s (pipeline s c w ?u) [])"
      by (simp add: run_def pipeline_def perform_append)
    with w show ?thesis by blast
  next
    case None
    with p perform_None [of s "first_steps s c w ?u" "[]" log]
    have log: "log = first_steps s c w ?u" by simp
    show ?thesis
    proof (cases "read_repoFullName c")
      case (Inl e)
      with p r None log have "run s c = first_steps s c w ?u @ [SetFailed e]"
        by (simp add: run_def catch_setFailed_def)
      with w Inl show ?thesis by blast
    next
      case (Inr n)
      with p r None have "run s c = catch_setFailed (perform s (pipeline s c w ?u) [])"
        by (simp add: run_def pipeline_def perform_append)
      with w show ?thesis by blast
    qed
  qed
qed

lemma run_subset:
  assumes "a \<in> set (run s c)"
  shows "(\<exists>m. a = SetFailed m) \<or>
     (\<exists>w. GITHUB_WORKSPACE c = Some w
        \<and> a \<in> set (pipeline s c w (resolveVcsRepoFileUrl s (getInput c ''vcs-repo-file-url''))))"
proof -
  let ?u = "resolveVcsRepoFileUrl s (getInput c ''vcs-repo-file-url'')"
  from run_cases [of s c] consider
      (early) m where "run s c = [SetFailed m]"
    | (name) w e where "GITHUB_WORKSPACE c = Some w" "run s c = first_steps s c w ?u @ [SetFailed e]"
    | (pipeline) w where "GITHUB_WORKSPACE c = Some w"
        "run s c = catch_setFailed (perform s (pipeline s c w ?u) [])"
    by blast
  then show ?thesis
  proof cases
    case early
    with assms show ?thesis by auto
  next
    case name
    with assms show ?thesis by (auto simp: pipeline_def)
  next
    case pipeline
    obtain res log where p: "perform s (pipeline s c w ?u) [] = (res, log)"
      by (cases "perform s (pipeline s c w ?u) []")
    from perform_log [OF p] obtain ys zs where "pipeline s c w ?u = ys @ zs" "log = ys" by auto
    with assms pipeline p show ?thesis
      by (cases res) (auto simp: catch_setFailed_def)
  qed
qed

text \<open>A run in which an operation after the first ones was started performs the pipeline.\<close>

lemma run_with_Exec:
  assumes "run s c = pre @ Exec r # post" and "GITHUB_WORKSPACE c = Some w"
    and "Exec r \<notin> set (first_steps s c w (resolveVcsRepoFileUrl s (getInput c ''vcs-repo-file-url'')))"
  shows "run s c = catch_setFailed (perform s
            (pipeline s c w (resolveVcsRepoFileUrl s (getInput c ''vcs-repo-file-url''))) [])"
proof -
  have "Exec r \<in> set (run s c)" using assms(1) by simp
  moreover from this have "\<not> (\<exists>m. run s c = [SetFailed m])" by auto
  ultimately show ?thesis using run_cases [of s c] assms(2,3) by auto
qed

lemma pipeline_no_SetFailed: "SetFailed m \<notin> set (pipeline s c w u)"
  by (simp add: pipeline_def steps_defs)

text \<open>A run that reports no failure is the whole pipeline.\<close>

lemma run_no_failure:
  assumes "GITHUB_WORKSPACE c = Some w" and "\<forall>m. SetFailed m \<notin> set (run s c)"
  shows "run s c = pipeline s c w (resolveVcsRepoFileUrl s (getInput c ''vcs-repo-file-url''))"
proof -
  let ?u = "resolveVcsRepoFileUrl s (getInput c ''vcs-repo-file-url'')"
  from run_cases [of s c] assms
  have r: "run s c = catch_setFailed (perform s (pipeline s c w ?u) [])"
    by auto
  obtain res log where p: "perform s (pipeline s c w ?u) [] = (res, log)"
    by (cases "perform s (pipeline s c w ?u) []")
  with r assms(2) have "res = None"
    by (cases res) (auto simp: catch_setFailed_def)
  with p perform_None [of s "pipeline s c w ?u" "[]" log] r show ?thesis
    by (simp add: catch_setFailed_def)
qed

text \<open>Awaiting a bash invocation of the pipeline is awaiting \<open>execBashCommand\<close>.\<close>

lemma await_execBashCommand:
  "await s log (Exec (bashRunner commandLine prefix opts)) =
     (case execBashCommand s log commandLine prefix opts of Inl e \<Rightarrow> Some e | Inr code \<Rightarrow> None)"
  by (simp add: execBashCommand_def)

lemma await_Exec_None:
  "await s log (Exec r) = None \<Longrightarrow> \<not> ignoresReturnCode (options r) \<Longrightarrow> spawn s log r = Inr 0"
  by (auto simp: runner_exec_def split: sum.splits if_splits)

lemma await_Exec_nonzero:
  "spawn s log r = Inr code \<Longrightarrow> code \<noteq> 0 \<Longrightarrow> \<not> ignoresReturnCode (options r)
     \<Longrightarrow> await s log (Exec r) = Some (ProcessFailed (toolPath r) code)"
  by (simp add: runner_exec_def)

lemma exec_in_not_ignored: "\<not> ignoresReturnCode (options (bashRunner cl p (exec_in s w)))"
  "\<not> ignoresReturnCode (options (bashRunner cl p None))"
  by (simp_all add: bashRunner_def exec_in_def ignoresReturnCode_def)

text \<open>
  Where the operations that the theorems below are about lie in the pipeline; each occurs
  once, and after the first operations.
\<close>

lemma pipeline_lcov:
  "pipeline s c w u = (first_steps s c w u @ target_steps s c w @ prune_steps s c w
         @ install_steps s c w @ mixin_steps c @ butlast (build_steps s c w))
      @ Exec (bashRunner (colconLcovResultCmd c) None
                (Some (ExecOptions (Some (ros2WorkspaceDir s w)) True))) # []"
  "Exec (bashRunner (colconLcovResultCmd c) None
                (Some (ExecOptions (Some (ros2WorkspaceDir s w)) True)))
     \<notin> set (first_steps s c w u @ target_steps s c w @ prune_steps s c w
         @ install_steps s c w @ mixin_steps c @ butlast (build_steps s c w))"
  by (simp_all add: pipeline_def steps_defs bashRunner_def exec_in_def)

lemma split_build:
  "pipeline s c w u =
     (first_steps s c w u @ target_steps s c w @ prune_steps s c w @ install_steps s c w
        @ mixin_steps c @ [AddPath (path_join s [ros2WorkspaceDir s w, ''install'', ''bin''])])
     @ Exec (bashRunner (colconBuildCmd c) (Some (commandPrefix c)) (exec_in s w))
     # tl (tl (build_steps s c w))"
  "Exec (bashRunner (colconBuildCmd c) (Some (commandPrefix c)) (exec_in s w))
     \<notin> set (first_steps s c w u @ target_steps s c w @ prune_steps s c w @ install_steps s c w
        @ mixin_steps c @ [AddPath (path_join s [ros2WorkspaceDir s w, ''install'', ''bin''])])"
  "Exec (bashRunner (colconBuildCmd c) (Some (commandPrefix c)) (exec_in s w))
     \<notin> set (tl (tl (build_steps s c w)))"
  by (simp_all add: pipeline_def steps_defs runner_defs cmd_defs)

lemma split_test:
  "pipeline s c w u =
     ((first_steps s c w u @ target_steps s c w @ prune_steps s c w @ install_steps s c w
        @ mixin_steps c @ [AddPath (path_join s [ros2WorkspaceDir s w, ''install'', ''bin''])])
       @ [Exec (bashRunner (colconBuildCmd c) (Some (commandPrefix c)) (exec_in s w))])
     @ Exec (bashRunner (colconTestCmd c) (Some (commandPrefix c)) (exec_in s w))
     # tl (tl (tl (build_steps s c w)))"
  "Exec (bashRunner (colconTestCmd c) (Some (commandPrefix c)) (exec_in s w))
     \<notin> set ((first_steps s c w u @ target_steps s c w @ prune_steps s c w @ install_steps s c w
        @ mixin_steps c @ [AddPath (path_join s [ros2WorkspaceDir s w, ''install'', ''bin''])])
       @ [Exec (bashRunner (colconBuildCmd c) (Some (commandPrefix c)) (exec_in s w))])"
  "Exec (bashRunner (colconTestCmd c) (Some (commandPrefix c)) (exec_in s w))
     \<notin> set (tl (tl (tl (build_steps s c w))))"
  by (simp_all add: pipeline_def steps_defs runner_defs cmd_defs)

lemma not_in_first_steps:
  "Exec (bashRunner (colconLcovResultCmd c) None
           (Some (ExecOptions (Some (ros2WorkspaceDir s w)) True))) \<notin> set (first_steps s c w u)"
  "Exec (bashRunner (colconBuildCmd c) (Some (commandPrefix c)) (exec_in s w))
     \<notin> set (first_steps s c w u)"
  "Exec (bashRunner (colconTestCmd c) (Some (commandPrefix c)) (exec_in s w))
     \<notin> set (first_steps s c w u)"
  using pipeline_lcov(2) [of c s w u] split_build(2) [of c s w u] split_test(2) [of c s w u]
  by simp_all

text \<open>
  The operation just before a once-occurring \<open>X\<close> in the log was a bash invocation
  that exited with code 0.
\<close>

lemma preceded_by_success:
  assumes log: "run s c = pre @ X # post" and w: "GITHUB_WORKSPACE c = Some w"
    and X: "X = Exec r"
    and split: "pipeline s c w (resolveVcsRepoFileUrl s (getInput c ''vcs-repo-file-url''))
                  = (A @ [Exec y]) @ X # B"
    and XA: "X \<notin> set (A @ [Exec y])" and XB: "X \<notin> set B"
    and first: "X \<notin> set (first_steps s c w (resolveVcsRepoFileUrl s (getInput c ''vcs-repo-file-url'')))"
    and y: "\<not> ignoresReturnCode (options y)"
  shows "pre = A @ [Exec y] \<and> spawn s A y = Inr 0"
proof -
  from run_with_Exec [OF log [unfolded X] w first [unfolded X]] log split
  have "catch_setFailed (perform s ((A @ [Exec y]) @ X # B) []) = pre @ X # post" by simp
  from occurrence [OF this XA XB] X
  have pre: "pre = A @ [Exec y]" and "perform s (A @ [Exec y]) [] = (None, A @ [Exec y])"
    by simp_all
  from perform_None_await [OF this(2)] have "await s A (Exec y) = None" by simp
  from await_Exec_None [OF this y] pre show ?thesis by simp
qed

text \<open>A once-occurring bash invocation that exits with a non-zero code ends the run.\<close>

lemma failure_is_fatal:
  assumes log: "run s c = pre @ Exec r # post" and w: "GITHUB_WORKSPACE c = Some w"
    and split: "pipeline s c w (resolveVcsRepoFileUrl s (getInput c ''vcs-repo-file-url''))
                  = A @ Exec r # B"
    and XA: "Exec r \<notin> set A" and XB: "Exec r \<notin> set B"
    and first: "Exec r \<notin> set (first_steps s c w (resolveVcsRepoFileUrl s (getInput c ''vcs-repo-file-url'')))"
    and r: "\<not> ignoresReturnCode (options r)"
    and code: "spawn s pre r = Inr code" "code \<noteq> 0"
  shows "post = [SetFailed (ProcessFailed (toolPath r) code)]"
proof -
  from run_with_Exec [OF log w first] log split
  have "catch_setFailed (perform s (A @ Exec r # B) []) = pre @ Exec r # post" by simp
  from occurrence [OF this XA XB]
  have pre: "pre = A" and "\<forall>e. await s A (Exec r) = Some e \<longrightarrow> post = [SetFailed e]"
    by simp_all
  with await_Exec_nonzero [OF code r] show ?thesis by simp
qed

subsection \<open>Path resolution\<close>

lemma match_length_slash:
  "match_length [''/''] (c # cs) = (if c = CHR ''/'' then 1 else 0)"
  by (simp add: match_length_def)

lemma split_path_Cons:
  "split_seqs [''/''] piece (c # cs) =
     (if c = CHR ''/'' then piece # split_seqs [''/''] [] cs
      else split_seqs [''/''] (piece @ [c]) cs)"
  by (simp add: match_length_slash)

lemma split_path_segment:
  "CHR ''/'' \<notin> set g \<Longrightarrow>
   split_seqs [''/''] piece (g @ rest) = split_seqs [''/''] (piece @ g) rest"
proof (induction g arbitrary: piece)
  case Nil
  then show ?case by simp
next
  case (Cons c g)
  then have "c \<noteq> CHR ''/''" by auto
  then have "split_seqs [''/''] piece ((c # g) @ rest) = split_seqs [''/''] (piece @ [c]) (g @ rest)"
    by (simp add: match_length_slash)
  also have "\<dots> = split_seqs [''/''] ((piece @ [c]) @ g) rest"
    using Cons by simp
  finally show ?case by simp
qed

lemma split_path_no_slash:
  "CHR ''/'' \<notin> set piece \<Longrightarrow> g \<in> set (split_seqs [''/''] piece p) \<Longrightarrow> CHR ''/'' \<notin> set g"
proof (induction p arbitrary: piece)
  case Nil
  then show ?case by simp
next
  case (Cons c p)
  show ?case
  proof (cases "c = CHR ''/''")
    case True
    with Cons.prems have "g = piece \<or> g \<in> set (split_seqs [''/''] [] p)"
      by (simp only: split_path_Cons) auto
    then show ?thesis using Cons.IH [of "[]"] Cons.prems(1) by auto
  next
    case False
    with Cons.prems have "g \<in> set (split_seqs [''/''] (piece @ [c]) p)"
      by (simp only: split_path_Cons) auto
    then show ?thesis using Cons.IH [of "piece @ [c]"] Cons.prems(1) False by auto
  qed
qed

lemma clean_butlast: "clean segs \<Longrightarrow> clean (butlast segs)"
  by (auto simp: clean_def dest: in_set_butlastD)

lemma normalize_step_clean:
  "clean res \<Longrightarrow> CHR ''/'' \<notin> set seg \<Longrightarrow> clean (normalize_step False res seg)"
  using clean_butlast [of res]
  by (auto simp: normalize_step_def clean_def)

lemma normalize_clean:
  "clean res \<Longrightarrow> \<forall>g \<in> set segs. CHR ''/'' \<notin> set g
     \<Longrightarrow> clean (foldl (normalize_step False) res segs)"
  by (induction segs arbitrary: res) (simp_all add: normalize_step_clean)

lemma normalize_step_keep:
  "g \<noteq> [] \<Longrightarrow> g \<noteq> ''.'' \<Longrightarrow> g \<noteq> ''..'' \<Longrightarrow> normalize_step a res g = res @ [g]"
  by (simp add: normalize_step_def)

lemma normalize_keep:
  "clean segs \<Longrightarrow> foldl (normalize_step a) res segs = res @ segs"
proof (induction segs arbitrary: res)
  case Nil
  then show ?case by simp
next
  case (Cons g segs)
  then have "clean segs" and g: "g \<noteq> []" "g \<noteq> ''.''" "g \<noteq> ''..''"
    by (simp_all add: clean_def)
  with Cons.IH [of "res @ [g]"] show ?case
    by (simp add: normalize_step_keep)
qed

lemma split_join_slash:
  "clean segs \<Longrightarrow> segs \<noteq> [] \<Longrightarrow>
   split_seqs [''/''] [] (join ''/'' segs @ ''/'') = segs @ [[]]"
proof (induction "''/''" segs rule: join.induct)
  case 1
  then show ?case by simp
next
  case (2 x)
  then have "CHR ''/'' \<notin> set x" by (simp add: clean_def)
  from split_path_segment [OF this, of "[]" "''/''"] show ?case
    by (simp add: match_length_slash)
next
  case (3 x y ys)
  then have x: "CHR ''/'' \<notin> set x" and rest: "clean (y # ys)" by (simp_all add: clean_def)
  have "split_seqs [''/''] [] (join ''/'' (x # y # ys) @ ''/'')
      = split_seqs [''/''] [] (x @ (''/'' @ join ''/'' (y # ys) @ ''/''))"
    by simp
  also have "\<dots> = split_seqs [''/''] x (''/'' @ join ''/'' (y # ys) @ ''/'')"
    using split_path_segment [OF x, of "[]"] by simp
  also have "\<dots> = x # split_seqs [''/''] [] (join ''/'' (y # ys) @ ''/'')"
    by (simp add: match_length_slash)
  also have "\<dots> = x # (y # ys) @ [[]]"
    using 3 rest by simp
  finally show ?case by simp
qed

lemma normalized_clean:
  "clean (foldl (normalize_step False) [] (split_path p))"
  unfolding split_path_def
  by (rule normalize_clean) (auto simp: clean_def dest: split_path_no_slash [rotated])

lemma posix_resolve_absolute:
  assumes "startsWithSlash p \<or> startsWithSlash wd"
  shows "\<exists>segs. posix_resolve wd p = ''/'' @ join ''/'' segs \<and> clean segs"
proof (cases "startsWithSlash p")
  case True
  then have "posix_resolve wd p
      = ''/'' @ join ''/'' (foldl (normalize_step False) [] (split_path (p @ ''/'')))"
    by (auto simp: posix_resolve_def Let_def normalizeString_def startsWithSlash_def)
  with normalized_clean show ?thesis by blast
next
  case False
  with assms have cwd: "startsWithSlash wd" "wd \<noteq> []"
    by (auto simp: startsWithSlash_def)
  with False have "posix_resolve wd p
      = ''/'' @ join ''/'' (foldl (normalize_step False) []
          (split_path (wd @ ''/'' @ (if p = [] then [] else p @ ''/''))))"
    by (simp add: posix_resolve_def Let_def normalizeString_def)
  with normalized_clean show ?thesis by blast
qed

lemma posix_resolve_resolved:
  assumes "clean segs"
  shows "posix_resolve wd (''/'' @ join ''/'' segs) = ''/'' @ join ''/'' segs"
proof (cases "segs = []")
  case True
  then show ?thesis
    by (simp add: posix_resolve_def Let_def normalizeString_def startsWithSlash_def split_path_def
        match_length_slash normalize_step_def)
next
  case False
  have "split_path ((''/'' @ join ''/'' segs) @ ''/'') = [] # segs @ [[]]"
    using split_join_slash [OF assms False] by (simp add: split_path_def match_length_slash)
  moreover have "foldl (normalize_step False) [] ([] # segs @ [[]]) = segs"
    using normalize_keep [OF assms, of False "[]"] by (simp add: normalize_step_def)
  ultimately show ?thesis
    by (simp add: posix_resolve_def Let_def normalizeString_def startsWithSlash_def)
qed

subsection \<open>The command prefix and the mixin\<close>

text \<open>
  The prefix sources each listed distribution, in order, and every invocation of the
  pipeline that does not ignore its return code starts with the prefix.
\<close>

lemma sourceAll_concat:
  "sourceAll acc ds = acc @ concat (map (\<lambda>d. ''source /opt/ros/'' @ d @ ''/setup.sh && '') ds)"
  by (induction ds arbitrary: acc) simp_all

lemma commandPrefix_sources:
  "getInput c ''source-ros-binary-installation'' \<noteq> '''' \<Longrightarrow>
   commandPrefix c = concat (map (\<lambda>d. ''source /opt/ros/'' @ d @ ''/setup.sh && '')
                              (split_ws (getInput c ''source-ros-binary-installation'')))"
  by (simp add: commandPrefix_def sourceAll_concat)

lemma commands_prefixed:
  assumes "Exec r \<in> set (pipeline s c w u)" and "\<not> ignoresReturnCode (options r)"
  shows "\<exists>commandLine. args r = [''-c'', commandPrefix c @ commandLine]"
  using assms
  by (auto simp: pipeline_def steps_defs bashRunner_def bashScript_def exec_in_def
      ignoresReturnCode_def split: if_splits)








subsection \<open>Partial mixin configuration\<close>




subsection \<open>The command prefix\<close>

text \<open>
  Claim C2 says that every bash invocation, the coverage extraction included, starts
  with the sourcing of the listed distributions. The invocations that pass the prefix do
  (\<open>commands_prefixed\<close>, \<open>commandPrefix_sources\<close>); the coverage extraction passes
  \<^verbatim>\<open>undefined\<close> instead. With the distribution \<open>eloquent\<close> on a Linux runner where
  everything succeeds, the last operation of the run is the bash script
  \<open>undefinedcolcon lcov-result --packages-select foo\<close>, which does not start with
  \<open>source\<close>.
\<close>

theorem lcov_invocation_not_prefixed:
  "commandPrefix ctx_source = ''source /opt/ros/eloquent/setup.sh && ''
   \<and> last (run sys_ok ctx_source) =
        Exec (ToolRunner ''bash'' [''-c'', ''undefinedcolcon lcov-result --packages-select foo'']
           (Some (ExecOptions (Some ''/ws/ros2_ws'') True)))
   \<and> take 7 (''undefinedcolcon lcov-result --packages-select foo'') \<noteq> ''source ''"
  by (simp add: model_defs example_defs)

subsection \<open>Build and test\<close>

text \<open>
  Claim C5. The build is the bash invocation, in the workspace directory, of
  \<open>colcon build\<close> with \<open>--packages-up-to\<close> and the packages of the input
  \<open>package-name\<close> (its pieces between white space, joined by spaces); the test is that
  of \<open>colcon test\<close> with the coverage arguments for pytest and \<open>--packages-select\<close>
  and the same packages. In every run that starts the test, the operation just before is
  the build, and it exited with code 0. A build or a test that exits with a non-zero
  code ends the run with a failure report. Every run that reports no failure has run
  the build and then the test.
\<close>

theorem build_then_test:
  assumes w: "GITHUB_WORKSPACE c = Some w"
  shows
    "let packages = join '' '' (split_ws (getInput c ''package-name''));
         mixin = (if getInput c ''colcon-mixin-name'' = '''' then ''''
                  else ''--mixin '' @ getInput c ''colcon-mixin-name'');
         opts = Some (ExecOptions (Some (path_join s [w, ''ros2_ws''])) False);
         build = ToolRunner ''bash''
           [''-c'', commandPrefix c
              @ ''colcon build --event-handlers console_cohesion+ --symlink-install --packages-up-to ''
              @ packages @ '' '' @ mixin] opts;
         test = ToolRunner ''bash''
           [''-c'', commandPrefix c
              @ ''colcon test --event-handlers console_cohesion+ --pytest-args --cov=. --cov-report=xml --return-code-on-test-failure --packages-select ''
              @ packages @ '' '' @ mixin] opts
     in (\<forall>pre post. run s c = pre @ Exec test # post
           \<longrightarrow> (\<exists>pre'. pre = pre' @ [Exec build] \<and> spawn s pre' build = Inr 0))
      \<and> (\<forall>pre post code. run s c = pre @ Exec build # post \<and> spawn s pre build = Inr code
             \<and> code \<noteq> 0
           \<longrightarrow> post = [SetFailed (ProcessFailed ''bash'' code)])
      \<and> (\<forall>pre post code. run s c = pre @ Exec test # post \<and> spawn s pre test = Inr code
             \<and> code \<noteq> 0
           \<longrightarrow> post = [SetFailed (ProcessFailed ''bash'' code)])
      \<and> ((\<forall>m. SetFailed m \<notin> set (run s c))
           \<longrightarrow> (\<exists>pre post. run s c = pre @ Exec build # Exec test # post))"
proof -
  let ?u = "resolveVcsRepoFileUrl s (getInput c ''vcs-repo-file-url'')"
  let ?build = "bashRunner (colconBuildCmd c) (Some (commandPrefix c)) (exec_in s w)"
  let ?test = "bashRunner (colconTestCmd c) (Some (commandPrefix c)) (exec_in s w)"
  have mixin: "join '' '' (extra_options c) =
      (if getInput c ''colcon-mixin-name'' = '''' then ''''
       else ''--mixin '' @ getInput c ''colcon-mixin-name'')"
    by (simp add: extra_options_def)
  have b: "ToolRunner ''bash''
           [''-c'', commandPrefix c
              @ ''colcon build --event-handlers console_cohesion+ --symlink-install --packages-up-to ''
              @ join '' '' (split_ws (getInput c ''package-name'')) @ '' ''
              @ (if getInput c ''colcon-mixin-name'' = '''' then ''''
                 else ''--mixin '' @ getInput c ''colcon-mixin-name'')]
           (Some (ExecOptions (Some (path_join s [w, ''ros2_ws''])) False)) = ?build"
    by (simp add: runner_defs colconBuildCmd_def packageNameList_def ros2WorkspaceDir_def mixin)
  have t: "ToolRunner ''bash''
           [''-c'', commandPrefix c
              @ ''colcon test --event-handlers console_cohesion+ --pytest-args --cov=. --cov-report=xml --return-code-on-test-failure --packages-select ''
              @ join '' '' (split_ws (getInput c ''package-name'')) @ '' ''
              @ (if getInput c ''colcon-mixin-name'' = '''' then ''''
                 else ''--mixin '' @ getInput c ''colcon-mixin-name'')]
           (Some (ExecOptions (Some (path_join s [w, ''ros2_ws''])) False)) = ?test"
    by (simp add: runner_defs colconTestCmd_def packageNameList_def ros2WorkspaceDir_def mixin)
  have order: "\<forall>pre post. run s c = pre @ Exec ?test # post
           \<longrightarrow> (\<exists>pre'. pre = pre' @ [Exec ?build] \<and> spawn s pre' ?build = Inr 0)"
  proof (intro allI impI)
    fix pre post
    assume "run s c = pre @ Exec ?test # post"
    from preceded_by_success [OF this w refl split_test not_in_first_steps(3)
        exec_in_not_ignored(1)]
    show "\<exists>pre'. pre = pre' @ [Exec ?build] \<and> spawn s pre' ?build = Inr 0"
      by blast
  qed
  have build_fatal: "\<forall>pre post code. run s c = pre @ Exec ?build # post
           \<and> spawn s pre ?build = Inr code \<and> code \<noteq> 0
           \<longrightarrow> post = [SetFailed (ProcessFailed ''bash'' code)]"
  proof (intro allI impI, elim conjE)
    fix pre post code
    assume h: "run s c = pre @ Exec ?build # post" "spawn s pre ?build = Inr code" "code \<noteq> 0"
    from failure_is_fatal [OF h(1) w split_build not_in_first_steps(2)
        exec_in_not_ignored(1) h(2,3)]
    show "post = [SetFailed (ProcessFailed ''bash'' code)]" by (simp add: bashRunner_def)
  qed
  have test_fatal: "\<forall>pre post code. run s c = pre @ Exec ?test # post
           \<and> spawn s pre ?test = Inr code \<and> code \<noteq> 0
           \<longrightarrow> post = [SetFailed (ProcessFailed ''bash'' code)]"
  proof (intro allI impI, elim conjE)
    fix pre post code
    assume h: "run s c = pre @ Exec ?test # post" "spawn s pre ?test = Inr code" "code \<noteq> 0"
    from failure_is_fatal [OF h(1) w split_test not_in_first_steps(3)
        exec_in_not_ignored(1) h(2,3)]
    show "post = [SetFailed (ProcessFailed ''bash'' code)]" by (simp add: bashRunner_def)
  qed
  have reached: "(\<forall>m. SetFailed m \<notin> set (run s c))
           \<longrightarrow> (\<exists>pre post. run s c = pre @ Exec ?build # Exec ?test # post)"
  proof
    assume "\<forall>m. SetFailed m \<notin> set (run s c)"
    from run_no_failure [OF w this] have "run s c = pipeline s c w ?u" .
    also have "\<dots> = (first_steps s c w ?u @ target_steps s c w @ prune_steps s c w
          @ install_steps s c w @ mixin_steps c
          @ [AddPath (path_join s [ros2WorkspaceDir s w, ''install'', ''bin''])])
        @ Exec ?build # Exec ?test
        # [Exec (bashRunner (colconLcovResultCmd c) None
              (Some (ExecOptions (Some (ros2WorkspaceDir s w)) True)))]"
      by (simp add: pipeline_def later_steps_def build_steps_def)
    finally show "\<exists>pre post. run s c = pre @ Exec ?build # Exec ?test # post" by blast
  qed
  from order build_fatal test_fatal reached show ?thesis
    unfolding Let_def b t by blast
qed

theorem build_then_test_witness:
  "GITHUB_WORKSPACE ctx_packages = Some ''/ws''
   \<and> getInput ctx_packages ''package-name''
       = ''foo'' @ [CHR 0x09] @ ''bar'' @ [CHR 0xC2, CHR 0xA0] @ ''baz''
   \<and> (\<forall>m. SetFailed m \<notin> set (run sys_ok ctx_packages))
   \<and> drop 10 (run sys_ok ctx_packages) =
        [Exec (ToolRunner ''bash''
            [''-c'', ''colcon build --event-handlers console_cohesion+ --symlink-install --packages-up-to foo bar baz '']
            (Some (ExecOptions (Some ''/ws/ros2_ws'') False))),
         Exec (ToolRunner ''bash''
            [''-c'', ''colcon test --event-handlers console_cohesion+ --pytest-args --cov=. --cov-report=xml --return-code-on-test-failure --packages-select foo bar baz '']
            (Some (ExecOptions (Some ''/ws/ros2_ws'') False))),
         Exec (ToolRunner ''bash''
            [''-c'', ''undefinedcolcon lcov-result --packages-select foo bar baz'']
            (Some (ExecOptions (Some ''/ws/ros2_ws'') True)))]
   \<and> drop 10 (run sys_build_fails ctx_packages) =
        [Exec (ToolRunner ''bash''
            [''-c'', ''colcon build --event-handlers console_cohesion+ --symlink-install --packages-up-to foo bar baz '']
            (Some (ExecOptions (Some ''/ws/ros2_ws'') False))),
         SetFailed (ProcessFailed ''bash'' 2)]
   \<and> drop 11 (run sys_test_fails ctx_packages) =
        [Exec (ToolRunner ''bash''
            [''-c'', ''colcon test --event-handlers console_cohesion+ --pytest-args --cov=. --cov-report=xml --return-code-on-test-failure --packages-select foo bar baz '']
            (Some (ExecOptions (Some ''/ws/ros2_ws'') False))),
         SetFailed (ProcessFailed ''bash'' 1)]"
proof -
  let ?B = "ToolRunner ''bash''
            [''-c'', ''colcon build --event-handlers console_cohesion+ --symlink-install --packages-up-to foo bar baz '']
            (Some (ExecOptions (Some ''/ws/ros2_ws'') False))"
  let ?T = "ToolRunner ''bash''
            [''-c'', ''colcon test --event-handlers console_cohesion+ --pytest-args --cov=. --cov-report=xml --return-code-on-test-failure --packages-select foo bar baz '']
            (Some (ExecOptions (Some ''/ws/ros2_ws'') False))"
  let ?L = "ToolRunner ''bash''
            [''-c'', ''undefinedcolcon lcov-result --packages-select foo bar baz'']
            (Some (ExecOptions (Some ''/ws/ros2_ws'') True))"
  have w: "GITHUB_WORKSPACE ctx_packages = Some ''/ws''" by (simp add: example_defs)
  have pkg: "getInput ctx_packages ''package-name''
       = ''foo'' @ [CHR 0x09] @ ''bar'' @ [CHR 0xC2, CHR 0xA0] @ ''baz''"
    by (simp add: getInput_def trim_examples example_defs)
  have b: "\<And>s. path_join s = join ''/'' \<Longrightarrow> ToolRunner ''bash''
           [''-c'', commandPrefix ctx_packages
              @ ''colcon build --event-handlers console_cohesion+ --symlink-install --packages-up-to ''
              @ join '' '' (split_ws (getInput ctx_packages ''package-name'')) @ '' ''
              @ (if getInput ctx_packages ''colcon-mixin-name'' = '''' then ''''
                 else ''--mixin '' @ getInput ctx_packages ''colcon-mixin-name'')]
           (Some (ExecOptions (Some (path_join s [''/ws'', ''ros2_ws''])) False)) = ?B"
    and t: "\<And>s. path_join s = join ''/'' \<Longrightarrow> ToolRunner ''bash''
           [''-c'', commandPrefix ctx_packages
              @ ''colcon test --event-handlers console_cohesion+ --pytest-args --cov=. --cov-report=xml --return-code-on-test-failure --packages-select ''
              @ join '' '' (split_ws (getInput ctx_packages ''package-name'')) @ '' ''
              @ (if getInput ctx_packages ''colcon-mixin-name'' = '''' then ''''
                 else ''--mixin '' @ getInput ctx_packages ''colcon-mixin-name'')]
           (Some (ExecOptions (Some (path_join s [''/ws'', ''ros2_ws''])) False)) = ?T"
    by (simp_all add: commandPrefix_def getInput_def trim_examples ws_defs example_defs)
  have pj: "path_join sys_ok = join ''/''" "path_join sys_build_fails = join ''/''"
    "path_join sys_test_fails = join ''/''"
    by (simp_all add: example_defs)
  note ok = build_then_test [OF w, of sys_ok, unfolded Let_def b [OF pj(1)] t [OF pj(1)]]
  note bf = build_then_test [OF w, of sys_build_fails, unfolded Let_def b [OF pj(2)] t [OF pj(2)]]
  note tf = build_then_test [OF w, of sys_test_fails, unfolded Let_def b [OF pj(3)] t [OF pj(3)]]
  define P where "P = take 10 (run sys_ok ctx_packages)"
  have rok: "run sys_ok ctx_packages = P @ [Exec ?B, Exec ?T, Exec ?L]"
    unfolding P_def by (simp add: model_defs example_defs)
  have P: "length P = 10" "\<forall>m. SetFailed m \<notin> set P"
    unfolding P_def by (simp_all add: model_defs example_defs)
  have rbf: "run sys_build_fails ctx_packages = P @ Exec ?B # drop 11 (run sys_build_fails ctx_packages)"
    unfolding P_def by (simp add: model_defs example_defs)
  have rtf: "run sys_test_fails ctx_packages = (P @ [Exec ?B]) @ Exec ?T # drop 12 (run sys_test_fails ctx_packages)"
    unfolding P_def by (simp add: model_defs example_defs)
  have nofail: "\<forall>m. SetFailed m \<notin> set (run sys_ok ctx_packages)"
    using P(2) by (simp add: rok)
  from ok [THEN conjunct2, THEN conjunct2, THEN conjunct2, THEN mp, OF nofail]
  have reached: "\<exists>pre post. run sys_ok ctx_packages = pre @ Exec ?B # Exec ?T # post" .
  have okd: "drop 10 (run sys_ok ctx_packages) = [Exec ?B, Exec ?T, Exec ?L]"
    using P(1) by (simp add: rok)
  have bcode: "spawn sys_build_fails P ?B = Inr 2" and two: "(2::int) \<noteq> 0"
    using P(1) by (simp_all add: example_defs)
  from bf [THEN conjunct2, THEN conjunct1, THEN spec, THEN spec, THEN spec, THEN mp,
      OF conjI [OF rbf conjI [OF bcode two]]]
  have bpost: "drop 11 (run sys_build_fails ctx_packages) = [SetFailed (ProcessFailed ''bash'' 2)]" .
  have "drop 10 (run sys_build_fails ctx_packages)
      = drop 10 (P @ Exec ?B # drop 11 (run sys_build_fails ctx_packages))"
    by (rule arg_cong [OF rbf])
  also have "\<dots> = Exec ?B # drop 11 (run sys_build_fails ctx_packages)"
    using P(1) by simp
  finally have bfail: "drop 10 (run sys_build_fails ctx_packages)
      = [Exec ?B, SetFailed (ProcessFailed ''bash'' 2)]"
    by (simp only: bpost)
  have tcode: "spawn sys_test_fails (P @ [Exec ?B]) ?T = Inr 1" and one: "(1::int) \<noteq> 0"
    using P(1) by (simp_all add: example_defs)
  from tf [THEN conjunct2, THEN conjunct2, THEN conjunct1, THEN spec, THEN spec, THEN spec, THEN mp,
      OF conjI [OF rtf conjI [OF tcode one]]]
  have tpost: "drop 12 (run sys_test_fails ctx_packages) = [SetFailed (ProcessFailed ''bash'' 1)]" .
  have "drop 11 (run sys_test_fails ctx_packages)
      = drop 11 ((P @ [Exec ?B]) @ Exec ?T # drop 12 (run sys_test_fails ctx_packages))"
    by (rule arg_cong [OF rtf])
  also have "\<dots> = Exec ?T # drop 12 (run sys_test_fails ctx_packages)"
    using P(1) by simp
  finally have tfail: "drop 11 (run sys_test_fails ctx_packages)
      = [Exec ?T, SetFailed (ProcessFailed ''bash'' 1)]"
    by (simp only: tpost)
  show ?thesis
    using w pkg nofail okd bfail tfail by (intro conjI)
qed

subsection \<open>The manifest resolver\<close>

text \<open>
  Claim C6. For an input that names an existing local file (as \<open>fs.existsSync\<close>
  decides), \<open>resolveVcsRepoFileUrl\<close> returns \<open>file://\<close> followed by the resolved
  path of that file. The resolved path is absolute and normalized: a slash followed by
  segments joined by single slashes, none of them empty, \<open>.\<close> or \<open>..\<close>. It does
  not depend on the working directory any more: resolved again from any working
  directory it is unchanged. For any other input the result is the input unchanged.
\<close>

theorem resolveVcsRepoFileUrl_file_or_unchanged:
  "(existsSync s u \<longrightarrow>
      resolveVcsRepoFileUrl s u = ''file://'' @ path_resolve s u
      \<and> (\<exists>segs. path_resolve s u = ''/'' @ join ''/'' segs
            \<and> (\<forall>g \<in> set segs. g \<noteq> [] \<and> g \<noteq> ''.'' \<and> g \<noteq> ''..'' \<and> CHR ''/'' \<notin> set g))
      \<and> (\<forall>s'. path_resolve s' (path_resolve s u) = path_resolve s u))
   \<and> (\<not> existsSync s u \<longrightarrow> resolveVcsRepoFileUrl s u = u)"
proof (intro conjI impI allI)
  assume "existsSync s u"
  then show "resolveVcsRepoFileUrl s u = ''file://'' @ path_resolve s u"
    by (simp add: resolveVcsRepoFileUrl_def)
next
  have "startsWithSlash (process_cwd s)"
    by (simp add: process_cwd_def startsWithSlash_def)
  then obtain segs where segs: "path_resolve s u = ''/'' @ join ''/'' segs" "clean segs"
    unfolding path_resolve_def using posix_resolve_absolute [of u "process_cwd s"] by blast
  then show "\<exists>segs. path_resolve s u = ''/'' @ join ''/'' segs
            \<and> (\<forall>g \<in> set segs. g \<noteq> [] \<and> g \<noteq> ''.'' \<and> g \<noteq> ''..'' \<and> CHR ''/'' \<notin> set g)"
    unfolding clean_def by blast
  fix s'
  have "path_resolve s' (''/'' @ join ''/'' segs) = ''/'' @ join ''/'' segs"
    unfolding path_resolve_def by (rule posix_resolve_resolved [OF segs(2)])
  then show "path_resolve s' (path_resolve s u) = path_resolve s u"
    by (simp only: segs(1))
next
  assume "\<not> existsSync s u"
  then show "resolveVcsRepoFileUrl s u = u"
    by (simp add: resolveVcsRepoFileUrl_def)
qed

theorem resolveVcsRepoFileUrl_file_or_unchanged_witness:
  "existsSync sys_ok ''config/../ros2.repos''
   \<and> process_cwd sys_ok = ''/home/runner/work'' \<and> process_cwd sys_elsewhere = ''/tmp''
   \<and> resolveVcsRepoFileUrl sys_ok ''config/../ros2.repos'' = ''file:///home/runner/work/ros2.repos''
   \<and> path_resolve sys_elsewhere ''/home/runner/work/ros2.repos'' = ''/home/runner/work/ros2.repos''
   \<and> \<not> existsSync sys_ok ''https://example.com/ros2.repos''
   \<and> resolveVcsRepoFileUrl sys_ok ''https://example.com/ros2.repos''
       = ''https://example.com/ros2.repos''"
proof -
  have e: "existsSync sys_ok ''config/../ros2.repos''"
    and n: "\<not> existsSync sys_ok ''https://example.com/ros2.repos''"
    and wd: "process_cwd sys_ok = ''/home/runner/work''" "process_cwd sys_elsewhere = ''/tmp''"
    by (simp_all add: sys_ok_def sys_elsewhere_def process_cwd_def)
  have p: "path_resolve sys_ok ''config/../ros2.repos'' = ''/home/runner/work/ros2.repos''"
    by (simp add: path_defs match_length_def sys_ok_def)
  note local = resolveVcsRepoFileUrl_file_or_unchanged [of sys_ok "''config/../ros2.repos''"]
  note remote = resolveVcsRepoFileUrl_file_or_unchanged [of sys_ok "''https://example.com/ros2.repos''"]
  from local e p
  have url: "resolveVcsRepoFileUrl sys_ok ''config/../ros2.repos'' = ''file:///home/runner/work/ros2.repos''"
    by simp
  from local e have "path_resolve sys_elsewhere (path_resolve sys_ok ''config/../ros2.repos'')
      = path_resolve sys_ok ''config/../ros2.repos''"
    by blast
  then have again: "path_resolve sys_elsewhere ''/home/runner/work/ros2.repos'' = ''/home/runner/work/ros2.repos''"
    by (simp only: p)
  from remote n
  have same: "resolveVcsRepoFileUrl sys_ok ''https://example.com/ros2.repos''
       = ''https://example.com/ros2.repos''"
    by blast
  from e wd url again n same show ?thesis by (intro conjI)
qed

subsection \<open>Coverage extraction\<close>

text \<open>
  Claim C7. In a run that reaches the coverage extraction (so build and test succeeded),
  whatever code that invocation exits with, the run is the whole pipeline and reports no
  failure.
\<close>

theorem coverage_failure_not_fatal:
  assumes w: "GITHUB_WORKSPACE c = Some w"
    and log: "run s c = pre @ Exec (bashRunner (colconLcovResultCmd c) None
                (Some (ExecOptions (Some (ros2WorkspaceDir s w)) True))) # post"
    and code: "spawn s pre (bashRunner (colconLcovResultCmd c) None
                (Some (ExecOptions (Some (ros2WorkspaceDir s w)) True))) = Inr code"
  shows "run s c = pipeline s c w (resolveVcsRepoFileUrl s (getInput c ''vcs-repo-file-url''))
     \<and> post = [] \<and> (\<forall>m. SetFailed m \<notin> set (run s c))"
proof -
  let ?X = "Exec (bashRunner (colconLcovResultCmd c) None
                (Some (ExecOptions (Some (ros2WorkspaceDir s w)) True)))"
  let ?u = "resolveVcsRepoFileUrl s (getInput c ''vcs-repo-file-url'')"
  let ?A = "first_steps s c w ?u @ target_steps s c w @ prune_steps s c w
         @ install_steps s c w @ mixin_steps c @ butlast (build_steps s c w)"
  from run_with_Exec [OF log w not_in_first_steps(1)]
  have r: "run s c = catch_setFailed (perform s (pipeline s c w ?u) [])" .
  with log have "catch_setFailed (perform s (?A @ ?X # []) []) = pre @ ?X # post"
    using pipeline_lcov(1) [of s c w ?u] by simp
  from occurrence [OF this pipeline_lcov(2)]
  have pre: "pre = ?A" and pA: "perform s ?A [] = (None, ?A)"
    and cont: "await s ?A ?X = None \<longrightarrow>
          (\<exists>r ys. perform s [] (?A @ [?X]) = (r, ?A @ ?X # ys)
             \<and> post = ys @ (case r of None \<Rightarrow> [] | Some e \<Rightarrow> [SetFailed e]))"
    by simp_all
  have "await s ?A ?X = None"
    using code pre by (simp add: runner_exec_def bashRunner_def ignoresReturnCode_def)
  with cont have post: "post = []" by auto
  with log pre have "run s c = pipeline s c w ?u"
    using pipeline_lcov(1) [of s c w ?u] by simp
  with post show ?thesis by (simp add: pipeline_no_SetFailed)
qed

theorem coverage_failure_not_fatal_witness:
  "GITHUB_WORKSPACE ctx_foo = Some ''/ws''
   \<and> spawn sys_lcov_fails (butlast (run sys_lcov_fails ctx_foo))
        (bashRunner (colconLcovResultCmd ctx_foo) None
           (Some (ExecOptions (Some (ros2WorkspaceDir sys_lcov_fails ''/ws'')) True))) = Inr 1
   \<and> last (run sys_lcov_fails ctx_foo) =
        Exec (ToolRunner ''bash'' [''-c'', ''undefinedcolcon lcov-result --packages-select foo'']
           (Some (ExecOptions (Some ''/ws/ros2_ws'') True)))
   \<and> (\<forall>m. SetFailed m \<notin> set (run sys_lcov_fails ctx_foo))"
proof -
  let ?X = "bashRunner (colconLcovResultCmd ctx_foo) None
           (Some (ExecOptions (Some (ros2WorkspaceDir sys_lcov_fails ''/ws'')) True))"
  have w: "GITHUB_WORKSPACE ctx_foo = Some ''/ws''" by (simp add: ctx_foo_def)
  have log: "run sys_lcov_fails ctx_foo = butlast (run sys_lcov_fails ctx_foo) @ Exec ?X # []"
    by (simp add: model_defs example_defs)
  have code: "spawn sys_lcov_fails (butlast (run sys_lcov_fails ctx_foo)) ?X = Inr 1"
    by (simp add: example_defs bashRunner_def ignoresReturnCode_def)
  have l: "last (run sys_lcov_fails ctx_foo) =
        Exec (ToolRunner ''bash'' [''-c'', ''undefinedcolcon lcov-result --packages-select foo'']
           (Some (ExecOptions (Some ''/ws/ros2_ws'') True)))"
    by (simp add: model_defs example_defs)
  from coverage_failure_not_fatal [OF w log code] w code l show ?thesis by blast
qed

subsection \<open>The platform check\<close>

text \<open>
  Claim C8, as amended. When \<open>source-ros-binary-installation\<close> is set and the platform
  is not Linux, the run consists of one failure report and no other operation. The
  message is that sourcing a binary installation is only available on Linux when the
  reading of the context and of the inputs, which comes first, did not throw; otherwise
  it is the message of the first of these that throws: the getter
  \<open>github.context.repo\<close>, the required input \<open>package-name\<close>, the workspace
  directory, the required input \<open>vcs-repo-file-url\<close>.
\<close>

theorem unsupported_platform_fails:
  assumes "getInput c ''source-ros-binary-installation'' \<noteq> ''''" and "platform s \<noteq> ''linux''"
  shows "run s c = [SetFailed
     (case context_repo c of
        Inl e \<Rightarrow> e
      | Inr name \<Rightarrow>
          if rawInput c ''package-name'' = ''''
            then Text ''Input required and not supplied: package-name''
          else if GITHUB_WORKSPACE c = None then PathTypeError
          else if rawInput c ''vcs-repo-file-url'' = ''''
            then Text ''Input required and not supplied: vcs-repo-file-url''
          else Text ''sourcing binary installation is only available on Linux'')]"
  using assms
  by (auto simp: run_def run_try_def catch_setFailed_def getInput_required_def
      unsupportedPlatform_def split: option.splits sum.splits)

theorem unsupported_platform_fails_witness:
  "getInput ctx_source ''source-ros-binary-installation'' \<noteq> '''' \<and> platform sys_mac \<noteq> ''linux''
   \<and> run sys_mac ctx_source
       = [SetFailed (Text ''sourcing binary installation is only available on Linux'')]"
proof -
  have h: "getInput ctx_source ''source-ros-binary-installation'' \<noteq> ''''"
      "platform sys_mac \<noteq> ''linux''"
    by (simp_all add: getInput_def trim_examples example_defs)
  from unsupported_platform_fails [OF h] h show ?thesis
    by (simp add: example_defs)
qed

text \<open>
  The claim as first stated, that the message is always the one of the platform, fails
  when a required input is missing: with the distribution \<open>eloquent\<close> on a runner
  that is not Linux and no \<open>package-name\<close>, the run reports the missing input.
\<close>

theorem unsupported_platform_counterexample:
  "getInput ctx_source_only ''source-ros-binary-installation'' \<noteq> ''''
   \<and> platform sys_mac \<noteq> ''linux''
   \<and> run sys_mac ctx_source_only
       = [SetFailed (Text ''Input required and not supplied: package-name'')]
   \<and> run sys_mac ctx_source_only
       \<noteq> [SetFailed (Text ''sourcing binary installation is only available on Linux'')]"
  by (simp add: model_defs example_defs)

subsection \<open>The omitted command prefix\<close>

text \<open>
  Claim C10. When \<open>execBashCommand\<close> is called without a command prefix, the script
  that bash runs is the word \<open>undefined\<close> followed by the command line. In every run,
  the one invocation that ignores its return code, the coverage extraction, has the
  script \<open>undefinedcolcon lcov-result --packages-select\<close> and the package names.
\<close>

theorem execBashCommand_undefined_prefix:
  "execBashCommand s log commandLine None opts
     = runner_exec s log (ToolRunner ''bash'' [''-c'', ''undefined'' @ commandLine] opts)
   \<and> (\<forall>r. Exec r \<in> set (run s c) \<and> ignoresReturnCode (options r) \<longrightarrow>
         args r = [''-c'', ''undefinedcolcon lcov-result --packages-select ''
                      @ join '' '' (packageNameList c)])"
proof
  show "execBashCommand s log commandLine None opts
     = runner_exec s log (ToolRunner ''bash'' [''-c'', ''undefined'' @ commandLine] opts)"
    by (simp add: execBashCommand_def bashRunner_def bashScript_def)
next
  show "\<forall>r. Exec r \<in> set (run s c) \<and> ignoresReturnCode (options r) \<longrightarrow>
         args r = [''-c'', ''undefinedcolcon lcov-result --packages-select ''
                      @ join '' '' (packageNameList c)]"
  proof (intro allI impI, elim conjE)
    fix r assume "Exec r \<in> set (run s c)" and ign: "ignoresReturnCode (options r)"
    from run_subset [OF this(1)] obtain w u where "Exec r \<in> set (pipeline s c w u)" by auto
    with ign show "args r = [''-c'', ''undefinedcolcon lcov-result --packages-select ''
                      @ join '' '' (packageNameList c)]"
      by (auto simp: pipeline_def steps_defs
          bashRunner_def bashScript_def exec_in_def ignoresReturnCode_def colconLcovResultCmd_def
          split: if_splits)
  qed
qed

theorem execBashCommand_undefined_prefix_witness:
  "Exec (ToolRunner ''bash'' [''-c'', ''undefinedcolcon lcov-result --packages-select foo'']
           (Some (ExecOptions (Some ''/ws/ros2_ws'') True))) \<in> set (run sys_ok ctx_foo)
   \<and> ignoresReturnCode (Some (ExecOptions (Some ''/ws/ros2_ws'') True))
   \<and> packageNameList ctx_foo = [''foo'']"
proof -
  let ?r = "ToolRunner ''bash'' [''-c'', ''undefinedcolcon lcov-result --packages-select foo'']
           (Some (ExecOptions (Some ''/ws/ros2_ws'') True))"
  have ran: "Exec ?r \<in> set (run sys_ok ctx_foo)"
    by (simp add: run_ok_foo)
  have ign: "ignoresReturnCode (options ?r)"
    by (simp add: ignoresReturnCode_def)
  from execBashCommand_undefined_prefix [of sys_ok "[]" "[]" None ctx_foo] ran ign
  have "args ?r = [''-c'', ''undefinedcolcon lcov-result --packages-select ''
                      @ join '' '' (packageNameList ctx_foo)]"
    by blast
  moreover have "packageNameList ctx_foo = [''foo'']"
    by (simp add: model_defs example_defs)
  ultimately show ?thesis using ran ign by simp
qed

end
